theory Spec2Isabelle
  imports Complex_Main "HOL-Library.AList" "HOL-Library.Sublist"
begin

section \<open>The TTL cache of the cryptocurrency server (src/cache.py)\<close>

text \<open>
  The development embeds class \<open>CacheManager\<close> of \<^verbatim>\<open>src/cache.py\<close>. The object's
  fields are a record, the backing file lives in an explicit file-system state, every
  exception of the Python code is a value of type \<open>error\<close>, and every method returns
  its result together with the object and the file system as it leaves them (an
  exception raised after \<open>self.cache_data\<close> was mutated leaves the mutation in place).
  Methods whose Python name starts with an underscore lose it (\<open>_load_cache\<close> is
  \<open>load_cache\<close>); \<open>__init__\<close> is \<open>init\<close>.
\<close>

subsection \<open>Values, exceptions and dictionaries\<close>

text \<open>
  What \<open>json.load\<close> returns and \<open>json.dump\<close> accepts: \<open>None\<close>, booleans, numbers,
  strings, lists, and dictionaries with string keys. A dictionary is an association list
  in insertion order, as a Python \<open>dict\<close> is. The cache never computes with a number, so
  a float is kept as the real it denotes.
\<close>

datatype json =
    JNull
  | JBool bool
  | JInt int
  | JFloat real
  | JStr string
  | JArr "json list"
  | JObj "(string \<times> json) list"

datatype error =
    FileNotFoundError
  | OSError
  | TypeError
  | AttributeError
  | KeyError
  | ValueError
  | OverflowError

text \<open>
  \<open>symbol in self.cache_data\<close>. On a dictionary this is key membership. After
  \<open>json.load\<close> of a well-formed file whose root is not an object, \<open>cache_data\<close> is
  some other value: \<open>in\<close> on a list compares the elements with the string, \<open>in\<close> on a
  string is the substring test, and \<open>in\<close> on \<open>None\<close>, a boolean or a number raises
  \<open>TypeError\<close>.
\<close>

fun py_contains :: "json \<Rightarrow> string \<Rightarrow> error + bool" where
  "py_contains (JObj kvs) symbol = Inr (symbol \<in> fst ` set kvs)"
| "py_contains (JArr xs) symbol = Inr (JStr symbol \<in> set xs)"
| "py_contains (JStr s) symbol = Inr (sublist symbol s)"
| "py_contains _ symbol = Inl TypeError"

text \<open>
  \<open>self.cache_data[symbol]\<close> with a string subscript: a lookup on a dictionary
  (\<open>KeyError\<close> when the key is absent), \<open>TypeError\<close> on everything else.
\<close>

fun py_getitem :: "json \<Rightarrow> string \<Rightarrow> error + json" where
  "py_getitem (JObj kvs) symbol =
     (case map_of kvs symbol of None \<Rightarrow> Inl KeyError | Some v \<Rightarrow> Inr v)"
| "py_getitem _ symbol = Inl TypeError"

text \<open>
  \<open>self.cache_data[symbol] = data\<close>: a present key keeps its place and gets the new
  value, a new key goes to the end.
\<close>

fun py_setitem :: "json \<Rightarrow> string \<Rightarrow> json \<Rightarrow> error + json" where
  "py_setitem (JObj kvs) symbol data = Inr (JObj (AList.update symbol data kvs))"
| "py_setitem _ symbol data = Inl TypeError"

text \<open>\<open>del self.cache_data[symbol]\<close>.\<close>

fun py_delitem :: "json \<Rightarrow> string \<Rightarrow> error + json" where
  "py_delitem (JObj kvs) symbol =
     (if symbol \<in> fst ` set kvs then Inr (JObj (AList.delete symbol kvs)) else Inl KeyError)"
| "py_delitem _ symbol = Inl TypeError"

text \<open>
  \<open>cached_entry.get(key, default)\<close>: only a dictionary has the method; on any other
  value the attribute lookup raises \<open>AttributeError\<close>.
\<close>

fun py_get :: "json \<Rightarrow> string \<Rightarrow> json \<Rightarrow> error + json" where
  "py_get (JObj kvs) key dflt =
     Inr (case map_of kvs key of None \<Rightarrow> dflt | Some v \<Rightarrow> v)"
| "py_get _ key dflt = Inl AttributeError"

subsection \<open>The file system\<close>

text \<open>
  A file is absent, or present with content that cannot be read or parsed as JSON, or
  present holding a JSON document; a document is identified with the value that
  \<open>json.load\<close> returns for it, so that \<open>Holds v\<close> is the file in which
  \<open>json.dump\<close> has written \<open>v\<close>. \<open>unmakeable\<close> are the directory names that neither
  exist nor can be created, \<open>unwritable\<close> the paths that cannot be opened for writing.
\<close>

datatype file_state = Absent | Corrupt | Holds json

record fsys =
  file_at :: "string \<Rightarrow> file_state"
  unmakeable :: "string set"
  unwritable :: "string set"

text \<open>
  \<open>os.path.dirname\<close> of \<open>posixpath\<close>: everything up to the last slash, with the
  trailing slashes removed unless nothing else is there.
\<close>

definition dirname :: "string \<Rightarrow> string" where
  "dirname p =
     (let head = rev (dropWhile (\<lambda>c. c \<noteq> CHR ''/'') (rev p))
      in if head \<noteq> [] \<and> \<not> list_all (\<lambda>c. c = CHR ''/'') head
         then rev (dropWhile (\<lambda>c. c = CHR ''/'') (rev head))
         else head)"

text \<open>
  \<open>os.makedirs(name, exist_ok=True)\<close>: the empty name is refused with
  \<open>FileNotFoundError\<close> (the final \<open>mkdir('')\<close> fails and \<open>''\<close> is not a directory);
  an existing directory is accepted.
\<close>

definition makedirs :: "fsys \<Rightarrow> string \<Rightarrow> error + unit" where
  "makedirs fs name =
     (if name = [] then Inl FileNotFoundError
      else if name \<in> unmakeable fs then Inl OSError
      else Inr ())"

subsection \<open>Time\<close>

text \<open>
  A \<open>datetime\<close> is its wall-clock reading in microseconds since 0001-01-01T00:00:00,
  with the UTC offset when it is timezone-aware. \<open>datetime.now()\<close> is naive, and is an
  argument \<open>now\<close> of the methods that read the clock. \<open>datetime.fromisoformat\<close> on a
  string is the parameter \<open>parse\<close> (\<open>None\<close> where it raises \<open>ValueError\<close>); the empty
  string is rejected by every version of the library, and an argument that is not a
  string raises \<open>TypeError\<close>.
\<close>

record datetime =
  micros :: int
  utcoffset :: "int option"

definition fromisoformat :: "(string \<Rightarrow> datetime option) \<Rightarrow> json \<Rightarrow> error + datetime" where
  "fromisoformat parse x =
     (case x of
        JStr s \<Rightarrow>
          (if s = [] then Inl ValueError
           else case parse s of None \<Rightarrow> Inl ValueError | Some d \<Rightarrow> Inr d)
      | _ \<Rightarrow> Inl TypeError)"

text \<open>
  \<open>cached_time + timedelta(minutes=n)\<close>: the sum must stay within
  0001-01-01 .. 9999-12-31 (3652059 days), else \<open>OverflowError\<close>.
\<close>

definition MAXMICROS :: int where
  "MAXMICROS = 3652059 * 86400 * 1000000"

definition add_minutes :: "datetime \<Rightarrow> int \<Rightarrow> error + datetime" where
  "add_minutes d n =
     (let r = micros d + n * 60000000
      in if 0 \<le> r \<and> r < MAXMICROS then Inr (d\<lparr>micros := r\<rparr>) else Inl OverflowError)"

text \<open>
  \<open>datetime.now() > expiry_time\<close>: comparing the naive clock reading with an aware
  datetime raises \<open>TypeError\<close>.
\<close>

definition now_gt :: "int \<Rightarrow> datetime \<Rightarrow> error + bool" where
  "now_gt now expiry_time =
     (case utcoffset expiry_time of
        Some _ \<Rightarrow> Inl TypeError
      | None \<Rightarrow> Inr (now > micros expiry_time))"

subsection \<open>CacheManager\<close>

record CacheManager =
  cache_file :: string
  ttl_minutes :: int
  cache_data :: json

definition ensure_data_dir :: "string \<Rightarrow> fsys \<Rightarrow> error + unit" where
  "ensure_data_dir path fs = makedirs fs (dirname path)"

text \<open>
  \<open>_load_cache\<close> runs inside \<open>__init__\<close> before \<open>cache_data\<close> exists and reads only
  \<open>self.cache_file\<close>, which is its argument here. \<open>_ensure_data_dir\<close> is called outside
  the \<open>try\<close>; everything raised by \<open>open\<close> or \<open>json.load\<close> is swallowed.
\<close>

definition load_cache :: "string \<Rightarrow> fsys \<Rightarrow> error + json" where
  "load_cache path fs =
     (case ensure_data_dir path fs of
        Inl e \<Rightarrow> Inl e
      | Inr _ \<Rightarrow>
          (if file_at fs path \<noteq> Absent
           then (case file_at fs path of Holds v \<Rightarrow> Inr v | _ \<Rightarrow> Inr (JObj []))
           else Inr (JObj [])))"

definition init :: "fsys \<Rightarrow> string \<Rightarrow> int \<Rightarrow> error + CacheManager" where
  "init fs path ttl =
     (case load_cache path fs of
        Inl e \<Rightarrow> Inl e
      | Inr d \<Rightarrow> Inr \<lparr>cache_file = path, ttl_minutes = ttl, cache_data = d\<rparr>)"

definition save_cache :: "CacheManager \<Rightarrow> fsys \<Rightarrow> (error + unit) \<times> fsys" where
  "save_cache self fs =
     (case ensure_data_dir (cache_file self) fs of
        Inl e \<Rightarrow> (Inl e, fs)
      | Inr _ \<Rightarrow>
          (if cache_file self \<in> unwritable fs then (Inl OSError, fs)
           else (Inr (),
                 fs\<lparr>file_at := (file_at fs)(cache_file self := Holds (cache_data self))\<rparr>)))"

text \<open>The bare \<open>except\<close> of \<open>_is_expired\<close> turns every exception into \<open>True\<close>.\<close>

definition is_expired :: "(string \<Rightarrow> datetime option) \<Rightarrow> int \<Rightarrow> int \<Rightarrow> json \<Rightarrow> bool" where
  "is_expired parse now ttl timestamp_str =
     (case fromisoformat parse timestamp_str of
        Inl _ \<Rightarrow> True
      | Inr cached_time \<Rightarrow>
          (case add_minutes cached_time ttl of
             Inl _ \<Rightarrow> True
           | Inr expiry_time \<Rightarrow>
               (case now_gt now expiry_time of Inl _ \<Rightarrow> True | Inr b \<Rightarrow> b)))"

text \<open>
  \<open>get\<close> returns \<open>Inr None\<close> for Python's \<open>None\<close> and \<open>Inr (Some entry)\<close> for a hit.
\<close>

definition get ::
  "(string \<Rightarrow> datetime option) \<Rightarrow> int \<Rightarrow> string \<Rightarrow> CacheManager \<Rightarrow> fsys
     \<Rightarrow> (error + json option) \<times> CacheManager \<times> fsys" where
  "get parse now symbol self fs =
     (case py_contains (cache_data self) symbol of
        Inl e \<Rightarrow> (Inl e, self, fs)
      | Inr False \<Rightarrow> (Inr None, self, fs)
      | Inr True \<Rightarrow>
          (case py_getitem (cache_data self) symbol of
             Inl e \<Rightarrow> (Inl e, self, fs)
           | Inr cached_entry \<Rightarrow>
               (case py_get cached_entry ''timestamp'' (JStr []) of
                  Inl e \<Rightarrow> (Inl e, self, fs)
                | Inr ts \<Rightarrow>
                    if is_expired parse now (ttl_minutes self) ts
                    then (case py_delitem (cache_data self) symbol of
                            Inl e \<Rightarrow> (Inl e, self, fs)
                          | Inr d \<Rightarrow>
                              (let self' = self\<lparr>cache_data := d\<rparr>
                               in case save_cache self' fs of
                                    (Inl e, fs') \<Rightarrow> (Inl e, self', fs')
                                  | (Inr _, fs') \<Rightarrow> (Inr None, self', fs')))
                    else (Inr (Some cached_entry), self, fs))))"

definition save ::
  "string \<Rightarrow> json \<Rightarrow> CacheManager \<Rightarrow> fsys \<Rightarrow> (error + unit) \<times> CacheManager \<times> fsys" where
  "save symbol data self fs =
     (case py_setitem (cache_data self) symbol data of
        Inl e \<Rightarrow> (Inl e, self, fs)
      | Inr d \<Rightarrow>
          (let self' = self\<lparr>cache_data := d\<rparr>
           in case save_cache self' fs of (r, fs') \<Rightarrow> (r, self', fs')))"

text \<open>
  \<open>clear(symbol=None)\<close>: the argument is tested with \<open>if symbol:\<close>, which is false for
  \<open>None\<close> and for the empty string.
\<close>

definition truthy :: "string option \<Rightarrow> bool" where
  "truthy symbol = (case symbol of None \<Rightarrow> False | Some s \<Rightarrow> s \<noteq> [])"

definition clear ::
  "string option \<Rightarrow> CacheManager \<Rightarrow> fsys \<Rightarrow> (error + unit) \<times> CacheManager \<times> fsys" where
  "clear symbol self fs =
     (case (if truthy symbol
            then (case py_contains (cache_data self) (the symbol) of
                    Inl e \<Rightarrow> Inl e
                  | Inr True \<Rightarrow> py_delitem (cache_data self) (the symbol)
                  | Inr False \<Rightarrow> Inr (cache_data self))
            else Inr (JObj [])) of
        Inl e \<Rightarrow> (Inl e, self, fs)
      | Inr d \<Rightarrow>
          (let self' = self\<lparr>cache_data := d\<rparr>
           in case save_cache self' fs of (r, fs') \<Rightarrow> (r, self', fs')))"

subsection \<open>Call sequences and fixtures\<close>

text \<open>
  \<open>cache.save(symbol, data)\<close> followed by \<open>cache.get(symbol)\<close>, the sequence of
  \<open>test_save_and_get\<close> and \<open>test_cache_expiration\<close> in \<^verbatim>\<open>src/tests.py\<close>. An
  exception in \<open>save\<close> ends the sequence.
\<close>

definition save_then_get ::
  "(string \<Rightarrow> datetime option) \<Rightarrow> int \<Rightarrow> string \<Rightarrow> json \<Rightarrow> CacheManager \<Rightarrow> fsys
     \<Rightarrow> (error + json option) \<times> CacheManager \<times> fsys" where
  "save_then_get parse now symbol data self fs =
     (case save symbol data self fs of
        (Inl e, self', fs') \<Rightarrow> (Inl e, self', fs')
      | (Inr _, self', fs') \<Rightarrow> get parse now symbol self' fs')"

text \<open>
  The backing file can be written: its directory part is not empty and exists or can be
  created, and the file can be opened for writing.
\<close>

definition can_persist :: "CacheManager \<Rightarrow> fsys \<Rightarrow> bool" where
  "can_persist self fs =
     (dirname (cache_file self) \<noteq> [] \<and> dirname (cache_file self) \<notin> unmakeable fs
      \<and> cache_file self \<notin> unwritable fs)"

text \<open>
  Fixtures for the concrete evaluations: a parser that knows two renderings of
  2024-01-01T00:00:00 (day 738886 of the calendar), one naive and one with offset
  \<open>+00:00\<close>; a disk with no files on which everything can be created and written; and
  the empty store on the default path.
\<close>

definition jan1 :: int where
  "jan1 = 738885 * 86400 * 1000000"

definition sample_parse :: "string \<Rightarrow> datetime option" where
  "sample_parse s =
     (if s = ''2024-01-01T00:00:00'' then Some \<lparr>micros = jan1, utcoffset = None\<rparr>
      else if s = ''2024-01-01T00:00:00+00:00'' then Some \<lparr>micros = jan1, utcoffset = Some 0\<rparr>
      else None)"

definition empty_disk :: fsys where
  "empty_disk = \<lparr>file_at = (\<lambda>_. Absent), unmakeable = {}, unwritable = {}\<rparr>"

definition empty_store :: "int \<Rightarrow> CacheManager" where
  "empty_store ttl = \<lparr>cache_file = ''data/cache.json'', ttl_minutes = ttl, cache_data = JObj []\<rparr>"

definition btc_plain :: json where
  "btc_plain = JObj [(''price'', JInt 45000)]"

definition btc_stamped :: json where
  "btc_stamped = JObj [(''price'', JInt 45000), (''timestamp'', JStr ''2024-01-01T00:00:00'')]"

definition btc_store :: "int \<Rightarrow> CacheManager" where
  "btc_store ttl =
     \<lparr>cache_file = ''data/cache.json'', ttl_minutes = ttl,
      cache_data = JObj [(''BTC'', btc_stamped)]\<rparr>"

definition mixed_store :: CacheManager where
  "mixed_store =
     \<lparr>cache_file = ''data/cache.json'', ttl_minutes = 5,
      cache_data = JObj [([], btc_plain), (''BTC'', btc_stamped)]\<rparr>"

definition stale_store :: CacheManager where
  "stale_store =
     \<lparr>cache_file = ''data/cache.json'', ttl_minutes = 5,
      cache_data =
        JObj [(''BTC'', btc_plain), (''ETH'', JObj [(''timestamp'', JStr ''yesterday'')])]\<rparr>"

section \<open>Properties\<close>

subsection \<open>Persisting, expiry, and the three outcomes of a read\<close>

lemma save_cache_ok:
  "can_persist self fs \<Longrightarrow>
   save_cache self fs =
     (Inr (), fs\<lparr>file_at := (file_at fs)(cache_file self := Holds (cache_data self))\<rparr>)"
  by (simp add: save_cache_def can_persist_def ensure_data_dir_def makedirs_def)

lemma can_persist_cache_data:
  "can_persist (self\<lparr>cache_data := d\<rparr>) fs = can_persist self fs"
  by (simp add: can_persist_def)

lemma save_cache_Inr:
  "save_cache self fs = (Inr u, fs') \<Longrightarrow>
   can_persist self fs
   \<and> fs' = fs\<lparr>file_at := (file_at fs)(cache_file self := Holds (cache_data self))\<rparr>"
  by (auto simp: save_cache_def can_persist_def ensure_data_dir_def makedirs_def
           split: sum.splits if_splits)

lemma is_expired_overdue:
  assumes "fromisoformat parse ts = Inr t"
      and "micros t + ttl * 60000000 < now"
  shows "is_expired parse now ttl ts"
  using assms
  by (auto simp: is_expired_def add_minutes_def now_gt_def Let_def split: option.splits)

lemma is_expired_unparsable:
  "fromisoformat parse ts = Inl e \<Longrightarrow> is_expired parse now ttl ts"
  by (simp add: is_expired_def)

lemma not_expired_fresh:
  assumes "\<not> is_expired parse now ttl ts"
  shows "\<exists>t. fromisoformat parse ts = Inr t \<and> utcoffset t = None
              \<and> now \<le> micros t + ttl * 60000000"
  using assms
  by (auto simp: is_expired_def add_minutes_def now_gt_def Let_def
           split: sum.splits option.splits if_splits)

lemma within_window_not_expired:
  assumes "fromisoformat parse ts = Inr t"
      and "utcoffset t = None"
      and "0 \<le> micros t + ttl * 60000000"
      and "micros t + ttl * 60000000 < MAXMICROS"
      and "now \<le> micros t + ttl * 60000000"
  shows "\<not> is_expired parse now ttl ts"
  using assms
  by (simp add: is_expired_def add_minutes_def now_gt_def Let_def)

lemma map_of_in_keys: "map_of kvs k = Some v \<Longrightarrow> k \<in> fst ` set kvs"
  by (metis domI dom_map_of_conv_image_fst)

lemma get_evicts:
  assumes "cache_data self = JObj kvs"
      and "map_of kvs symbol = Some entry"
      and "py_get entry ''timestamp'' (JStr []) = Inr ts"
      and "is_expired parse now (ttl_minutes self) ts"
      and "can_persist self fs"
  shows "get parse now symbol self fs =
           (Inr None, self\<lparr>cache_data := JObj (AList.delete symbol kvs)\<rparr>,
            fs\<lparr>file_at := (file_at fs)
                   (cache_file self := Holds (JObj (AList.delete symbol kvs)))\<rparr>)"
proof -
  have k: "symbol \<in> fst ` set kvs" using assms(2) by (rule map_of_in_keys)
  have p: "can_persist (self\<lparr>cache_data := JObj (AList.delete symbol kvs)\<rparr>) fs"
    using assms(5) by (simp add: can_persist_cache_data)
  show ?thesis
    using assms(1-4) k save_cache_ok [OF p] by (simp add: get_def)
qed

lemma get_hit:
  assumes "cache_data self = JObj kvs"
      and "map_of kvs symbol = Some entry"
      and "py_get entry ''timestamp'' (JStr []) = Inr ts"
      and "\<not> is_expired parse now (ttl_minutes self) ts"
  shows "get parse now symbol self fs = (Inr (Some entry), self, fs)"
proof -
  have k: "symbol \<in> fst ` set kvs" using assms(2) by (rule map_of_in_keys)
  show ?thesis using assms k by (simp add: get_def)
qed

lemma get_Some_not_expired:
  assumes "fst (get parse now symbol self fs) = Inr (Some v)"
  shows "\<exists>ts. py_get v ''timestamp'' (JStr []) = Inr ts
              \<and> \<not> is_expired parse now (ttl_minutes self) ts"
  using assms
  by (auto simp: get_def Let_def split: sum.splits bool.splits if_splits prod.splits)

lemma save_ok:
  assumes "cache_data self = JObj kvs" and "can_persist self fs"
  shows "save symbol data self fs =
           (Inr (), self\<lparr>cache_data := JObj (AList.update symbol data kvs)\<rparr>,
            fs\<lparr>file_at := (file_at fs)
                   (cache_file self := Holds (JObj (AList.update symbol data kvs)))\<rparr>)"
proof -
  have p: "can_persist (self\<lparr>cache_data := JObj (AList.update symbol data kvs)\<rparr>) fs"
    using assms(2) by (simp add: can_persist_cache_data)
  show ?thesis using assms(1) save_cache_ok [OF p] by (simp add: save_def)
qed

lemma save_Inr:
  assumes "save symbol data self fs = (Inr u, self', fs')"
  shows "\<exists>kvs. cache_data self = JObj kvs \<and> can_persist self fs
               \<and> self' = self\<lparr>cache_data := JObj (AList.update symbol data kvs)\<rparr>
               \<and> fs' = fs\<lparr>file_at := (file_at fs)
                          (cache_file self := Holds (JObj (AList.update symbol data kvs)))\<rparr>"
proof (cases "cache_data self")
  case (JObj kvs)
  from assms JObj obtain r where
    s: "save_cache (self\<lparr>cache_data := JObj (AList.update symbol data kvs)\<rparr>) fs = (Inr u, fs')"
    and e: "self' = self\<lparr>cache_data := JObj (AList.update symbol data kvs)\<rparr>"
    by (auto simp: save_def Let_def split: prod.splits)
  from save_cache_Inr [OF s] e JObj show ?thesis
    by (simp add: can_persist_cache_data)
qed (use assms in \<open>simp_all add: save_def\<close>)

lemma clear_key_ok:
  assumes "symbol \<noteq> []" and "cache_data self = JObj kvs" and "can_persist self fs"
  shows "clear (Some symbol) self fs =
           (Inr (), self\<lparr>cache_data := JObj (AList.delete symbol kvs)\<rparr>,
            fs\<lparr>file_at := (file_at fs)
                   (cache_file self := Holds (JObj (AList.delete symbol kvs)))\<rparr>)"
proof -
  have p: "can_persist (self\<lparr>cache_data := JObj (AList.delete symbol kvs)\<rparr>) fs"
    using assms(3) by (simp add: can_persist_cache_data)
  show ?thesis
  proof (cases "symbol \<in> fst ` set kvs")
    case True
    then show ?thesis
      using assms(1,2) save_cache_ok [OF p] by (simp add: clear_def truthy_def)
  next
    case False
    then have "AList.delete symbol kvs = kvs" by simp
    with False show ?thesis
      using assms(1,2) save_cache_ok [OF p] by (simp add: clear_def truthy_def)
  qed
qed

lemma clear_all_ok:
  assumes "\<not> truthy symbol" and "can_persist self fs"
  shows "clear symbol self fs =
           (Inr (), self\<lparr>cache_data := JObj []\<rparr>,
            fs\<lparr>file_at := (file_at fs)(cache_file self := Holds (JObj []))\<rparr>)"
proof -
  have p: "can_persist (self\<lparr>cache_data := JObj []\<rparr>) fs"
    using assms(2) by (simp add: can_persist_cache_data)
  show ?thesis using assms(1) save_cache_ok [OF p] by (simp add: clear_def)
qed

lemma clear_Inr:
  assumes "clear symbol self fs = (Inr u, self', fs')"
  shows "cache_file self' = cache_file self
         \<and> file_at fs' (cache_file self') = Holds (cache_data self')"
proof -
  from assms obtain d where
    s: "save_cache (self\<lparr>cache_data := d\<rparr>) fs = (Inr u, fs')"
    and e: "self' = self\<lparr>cache_data := d\<rparr>"
    by (auto simp: clear_def Let_def split: sum.splits prod.splits)
  from save_cache_Inr [OF s] e show ?thesis by simp
qed

lemma get_evicting_Inr:
  assumes "get parse now symbol self fs = (Inr None, self', fs')"
      and "py_contains (cache_data self) symbol = Inr True"
  shows "cache_file self' = cache_file self
         \<and> file_at fs' (cache_file self') = Holds (cache_data self')"
proof -
  from assms obtain d u where
    s: "save_cache (self\<lparr>cache_data := d\<rparr>) fs = (Inr u, fs')"
    and e: "self' = self\<lparr>cache_data := d\<rparr>"
    by (auto simp: get_def Let_def split: sum.splits prod.splits if_splits)
  from save_cache_Inr [OF s] e show ?thesis by simp
qed

text \<open>
  Construction on a path with a directory part that exists or can be created: a missing
  or unreadable file gives the empty store, a stored document is loaded as it is.
\<close>

lemma init_absorbs_load_failure:
  assumes "dirname path \<noteq> []" and "dirname path \<notin> unmakeable fs"
      and "file_at fs path = Absent \<or> file_at fs path = Corrupt"
  shows "init fs path ttl = Inr \<lparr>cache_file = path, ttl_minutes = ttl, cache_data = JObj []\<rparr>"
  using assms
  by (auto simp: init_def load_cache_def ensure_data_dir_def makedirs_def)

lemma init_reloads_document:
  assumes "dirname path \<noteq> []" and "dirname path \<notin> unmakeable fs"
      and "file_at fs path = Holds v"
  shows "init fs path ttl = Inr \<lparr>cache_file = path, ttl_minutes = ttl, cache_data = v\<rparr>"
  using assms
  by (simp add: init_def load_cache_def ensure_data_dir_def makedirs_def)

subsection \<open>Facts about the fixtures\<close>

lemma can_persist_btc: "can_persist (btc_store ttl) empty_disk"
  by (simp add: can_persist_def btc_store_def empty_disk_def dirname_def)

lemma can_persist_mixed: "can_persist mixed_store empty_disk"
  by (simp add: can_persist_def mixed_store_def empty_disk_def dirname_def)

lemma can_persist_stale: "can_persist stale_store empty_disk"
  by (simp add: can_persist_def stale_store_def empty_disk_def dirname_def)

lemma btc_stamped_ts:
  "py_get btc_stamped ''timestamp'' (JStr []) = Inr (JStr ''2024-01-01T00:00:00'')"
  by (simp add: btc_stamped_def)

lemma parse_jan1:
  "fromisoformat sample_parse (JStr ''2024-01-01T00:00:00'')
     = Inr \<lparr>micros = jan1, utcoffset = None\<rparr>"
  by (simp add: fromisoformat_def sample_parse_def)

lemma get_btc_hit:
  "get sample_parse (jan1 + 360000000) ''BTC'' (btc_store 10) empty_disk
     = (Inr (Some btc_stamped), btc_store 10, empty_disk)"
  by (simp add: get_def btc_store_def btc_stamped_def is_expired_def fromisoformat_def
      sample_parse_def add_minutes_def now_gt_def jan1_def MAXMICROS_def)

subsection \<open>Write then read\<close>

text \<open>
  Claim C1, as stated: for every key and every value, \<open>save(k, v)\<close> followed by
  \<open>get(k)\<close> before the TTL has elapsed returns \<open>v\<close>. \<open>save\<close> stores \<open>v\<close> as it is and
  \<open>get\<close> reads the age of an entry from the entry's own \<open>timestamp\<close> field, so a value
  without that field is expired at once: with a TTL of five minutes, saving
  \<open>{price: 45000}\<close> and reading it back at the same instant gives \<open>None\<close>.
\<close>

theorem save_then_get_counterexample:
  "fst (save_then_get sample_parse jan1 ''BTC'' btc_plain (empty_store 5) empty_disk) = Inr None
   \<and> fst (save_then_get sample_parse jan1 ''BTC'' btc_plain (empty_store 5) empty_disk)
       \<noteq> Inr (Some btc_plain)"
  by (simp add: save_then_get_def save_def get_def save_cache_def ensure_data_dir_def
      makedirs_def dirname_def is_expired_def fromisoformat_def btc_plain_def
      empty_store_def empty_disk_def)

text \<open>
  Claim C1, amended: when \<open>save(k, v)\<close> returns, \<open>v\<close> is a dictionary whose
  \<open>timestamp\<close> parses as a naive time \<open>t\<close>, \<open>t\<close> plus the TTL is itself a time of the
  calendar (between 0001-01-01 and the end of 9999), and the clock at the read shows at
  most \<open>t\<close> plus the TTL, then the \<open>get(k)\<close> that follows returns \<open>v\<close> unchanged.
\<close>

theorem save_then_get_fresh:
  assumes "fst (save symbol data self fs) = Inr ()"
      and "py_get data ''timestamp'' (JStr []) = Inr ts"
      and "fromisoformat parse ts = Inr t"
      and "utcoffset t = None"
      and "0 \<le> micros t + ttl_minutes self * 60000000"
      and "micros t + ttl_minutes self * 60000000 < MAXMICROS"
      and "now \<le> micros t + ttl_minutes self * 60000000"
  shows "fst (save_then_get parse now symbol data self fs) = Inr (Some data)"
proof -
  obtain self' fs' where s: "save symbol data self fs = (Inr (), self', fs')"
    using assms(1) by (cases "save symbol data self fs") auto
  from save_Inr [OF s] obtain kvs where
    d: "cache_data self' = JObj (AList.update symbol data kvs)"
    and e: "ttl_minutes self' = ttl_minutes self"
    by auto
  have m: "map_of (AList.update symbol data kvs) symbol = Some data"
    by (simp add: update_conv')
  have x: "\<not> is_expired parse now (ttl_minutes self') ts"
    using within_window_not_expired [OF assms(3) assms(4), of "ttl_minutes self" now]
      assms(5) assms(6) assms(7) e
    by simp
  have "get parse now symbol self' fs' = (Inr (Some data), self', fs')"
    by (rule get_hit [OF d m assms(2) x])
  with s show ?thesis by (simp add: save_then_get_def)
qed

theorem save_then_get_fresh_witness:
  "fst (save ''BTC'' btc_stamped (empty_store 5) empty_disk) = Inr ()
   \<and> py_get btc_stamped ''timestamp'' (JStr []) = Inr (JStr ''2024-01-01T00:00:00'')
   \<and> fromisoformat sample_parse (JStr ''2024-01-01T00:00:00'')
        = Inr \<lparr>micros = jan1, utcoffset = None\<rparr>
   \<and> 0 \<le> jan1 + ttl_minutes (empty_store 5) * 60000000
   \<and> jan1 + ttl_minutes (empty_store 5) * 60000000 < MAXMICROS
   \<and> jan1 + 60000000 \<le> jan1 + ttl_minutes (empty_store 5) * 60000000
   \<and> fst (save_then_get sample_parse (jan1 + 60000000) ''BTC'' btc_stamped
            (empty_store 5) empty_disk) = Inr (Some btc_stamped)"
proof -
  have a: "fst (save ''BTC'' btc_stamped (empty_store 5) empty_disk) = Inr ()"
    by (simp add: save_def save_cache_def ensure_data_dir_def makedirs_def dirname_def
        empty_store_def empty_disk_def)
  have u: "utcoffset \<lparr>micros = jan1, utcoffset = None\<rparr> = None" by simp
  have l: "0 \<le> micros \<lparr>micros = jan1, utcoffset = None\<rparr>
                 + ttl_minutes (empty_store 5) * 60000000"
    by (simp add: jan1_def empty_store_def)
  have h: "micros \<lparr>micros = jan1, utcoffset = None\<rparr>
             + ttl_minutes (empty_store 5) * 60000000 < MAXMICROS"
    by (simp add: jan1_def MAXMICROS_def empty_store_def)
  have n: "jan1 + 60000000 \<le> micros \<lparr>micros = jan1, utcoffset = None\<rparr>
             + ttl_minutes (empty_store 5) * 60000000"
    by (simp add: empty_store_def)
  from save_then_get_fresh [OF a btc_stamped_ts parse_jan1 u l h n]
    a btc_stamped_ts parse_jan1 l h n
  show ?thesis by simp
qed

subsection \<open>What a write stores\<close>

text \<open>
  Claim C2, as stated: \<open>save(k, v)\<close> stamps the stored entry with the current time.
  \<open>save\<close> does not read the clock and adds no field: after saving \<open>{price: 45000}\<close>
  the stored entry is that dictionary, and it has no \<open>timestamp\<close>.
\<close>

theorem save_stamp_counterexample:
  "(case save ''BTC'' btc_plain (empty_store 5) empty_disk of
      (r, self', fs') \<Rightarrow> py_getitem (cache_data self') ''BTC'') = Inr btc_plain
   \<and> py_get btc_plain ''timestamp'' JNull = Inr JNull"
  by (simp add: save_def save_cache_def ensure_data_dir_def makedirs_def dirname_def
      btc_plain_def empty_store_def empty_disk_def)

text \<open>
  Claim C2, amended: on a store whose data is a dictionary and whose backing file can be
  written, \<open>save(k, v)\<close> returns normally, the entry under \<open>k\<close> is then exactly \<open>v\<close> as
  given (whatever had been stored under \<open>k\<close> is gone as a whole, and the only timestamp is
  the one \<open>v\<close> carries), every other key is as before, and the backing file holds the
  whole store; no other file changes.
\<close>

theorem save_stores_as_given:
  assumes "cache_data self = JObj kvs" and "can_persist self fs"
  shows "case save symbol data self fs of
           (r, self', fs') \<Rightarrow>
             r = Inr ()
             \<and> py_getitem (cache_data self') symbol = Inr data
             \<and> (\<forall>k. k \<noteq> symbol \<longrightarrow>
                    py_getitem (cache_data self') k = py_getitem (cache_data self) k)
             \<and> cache_file self' = cache_file self \<and> ttl_minutes self' = ttl_minutes self
             \<and> file_at fs' (cache_file self) = Holds (cache_data self')
             \<and> (\<forall>p. p \<noteq> cache_file self \<longrightarrow> file_at fs' p = file_at fs p)"
  using assms(1) save_ok [OF assms, of symbol data]
  by (simp add: update_conv')

theorem save_stores_as_given_witness:
  "cache_data (btc_store 5) = JObj [(''BTC'', btc_stamped)]
   \<and> can_persist (btc_store 5) empty_disk
   \<and> (case save ''BTC'' btc_plain (btc_store 5) empty_disk of
        (r, self', fs') \<Rightarrow>
          r = Inr () \<and> py_getitem (cache_data self') ''BTC'' = Inr btc_plain
          \<and> py_getitem (cache_data self') ''ETH'' = py_getitem (cache_data (btc_store 5)) ''ETH''
          \<and> file_at fs' ''data/cache.json'' = Holds (cache_data self')
          \<and> file_at fs' ''data/errors.log'' = Absent)"
proof -
  have a: "cache_data (btc_store 5) = JObj [(''BTC'', btc_stamped)]"
    by (simp add: btc_store_def)
  have f: "cache_file (btc_store 5) = ''data/cache.json''"
    by (simp add: btc_store_def)
  have e: "file_at empty_disk ''data/errors.log'' = Absent"
    by (simp add: empty_disk_def)
  from save_stores_as_given [OF a can_persist_btc, of "''BTC''" btc_plain] a can_persist_btc f e
  show ?thesis
    by (auto split: prod.splits)
qed

subsection \<open>Reading an expired entry\<close>

text \<open>
  Claim C3: when the key is present, the entry's \<open>timestamp\<close> parses as a time \<open>t\<close>, and
  \<open>t\<close> plus the TTL is earlier than the clock reading, \<open>get\<close> removes the entry from the
  dictionary, writes the remaining store to the backing file (which can be written) and
  returns \<open>None\<close>. And whatever the store, a value that \<open>get\<close> returns carries a timestamp
  that is at most the TTL old.
\<close>

theorem get_expired_evicts:
  "(cache_data self = JObj kvs \<and> map_of kvs symbol = Some entry
      \<and> py_get entry ''timestamp'' (JStr []) = Inr ts \<and> fromisoformat parse ts = Inr t
      \<and> micros t + ttl_minutes self * 60000000 < now \<and> can_persist self fs
    \<longrightarrow> get parse now symbol self fs =
          (Inr None, self\<lparr>cache_data := JObj (AList.delete symbol kvs)\<rparr>,
           fs\<lparr>file_at := (file_at fs)
                  (cache_file self := Holds (JObj (AList.delete symbol kvs)))\<rparr>)
        \<and> py_contains (JObj (AList.delete symbol kvs)) symbol = Inr False)
   \<and> (fst (get parse now key store disk) = Inr (Some v)
      \<longrightarrow> (\<exists>ts' t'. py_get v ''timestamp'' (JStr []) = Inr ts'
              \<and> fromisoformat parse ts' = Inr t'
              \<and> now \<le> micros t' + ttl_minutes store * 60000000))"
proof (intro conjI impI)
  assume h: "cache_data self = JObj kvs \<and> map_of kvs symbol = Some entry
      \<and> py_get entry ''timestamp'' (JStr []) = Inr ts \<and> fromisoformat parse ts = Inr t
      \<and> micros t + ttl_minutes self * 60000000 < now \<and> can_persist self fs"
  then have x: "is_expired parse now (ttl_minutes self) ts"
    by (simp add: is_expired_overdue)
  from h x show "get parse now symbol self fs =
          (Inr None, self\<lparr>cache_data := JObj (AList.delete symbol kvs)\<rparr>,
           fs\<lparr>file_at := (file_at fs)
                  (cache_file self := Holds (JObj (AList.delete symbol kvs)))\<rparr>)"
    by (simp add: get_evicts)
  show "py_contains (JObj (AList.delete symbol kvs)) symbol = Inr False"
    by (simp add: delete_notin_dom)
next
  assume "fst (get parse now key store disk) = Inr (Some v)"
  from get_Some_not_expired [OF this] obtain ts' where
    a: "py_get v ''timestamp'' (JStr []) = Inr ts'"
    and b: "\<not> is_expired parse now (ttl_minutes store) ts'" by blast
  from not_expired_fresh [OF b] a
  show "\<exists>ts' t'. py_get v ''timestamp'' (JStr []) = Inr ts'
              \<and> fromisoformat parse ts' = Inr t'
              \<and> now \<le> micros t' + ttl_minutes store * 60000000"
    by blast
qed

theorem get_expired_evicts_witness:
  "cache_data (btc_store 5) = JObj [(''BTC'', btc_stamped)]
   \<and> map_of [(''BTC'', btc_stamped)] ''BTC'' = Some btc_stamped
   \<and> micros \<lparr>micros = jan1, utcoffset = None\<rparr> + ttl_minutes (btc_store 5) * 60000000
       < jan1 + 360000000
   \<and> can_persist (btc_store 5) empty_disk
   \<and> get sample_parse (jan1 + 360000000) ''BTC'' (btc_store 5) empty_disk =
       (Inr None, (btc_store 5)\<lparr>cache_data := JObj []\<rparr>,
        empty_disk\<lparr>file_at := (file_at empty_disk)(''data/cache.json'' := Holds (JObj []))\<rparr>)
   \<and> fst (get sample_parse (jan1 + 360000000) ''BTC'' (btc_store 10) empty_disk)
       = Inr (Some btc_stamped)
   \<and> (\<exists>ts' t'. py_get btc_stamped ''timestamp'' (JStr []) = Inr ts'
         \<and> fromisoformat sample_parse ts' = Inr t'
         \<and> jan1 + 360000000 \<le> micros t' + ttl_minutes (btc_store 10) * 60000000)"
proof -
  have a: "cache_data (btc_store 5) = JObj [(''BTC'', btc_stamped)]"
    by (simp add: btc_store_def)
  have b: "map_of [(''BTC'', btc_stamped)] ''BTC'' = Some btc_stamped" by simp
  have c: "micros \<lparr>micros = jan1, utcoffset = None\<rparr> + ttl_minutes (btc_store 5) * 60000000
             < jan1 + 360000000"
    by (simp add: btc_store_def)
  have d: "fst (get sample_parse (jan1 + 360000000) ''BTC'' (btc_store 10) empty_disk)
             = Inr (Some btc_stamped)"
    by (simp add: get_btc_hit)
  have f: "cache_file (btc_store 5) = ''data/cache.json''" by (simp add: btc_store_def)
  have g: "AList.delete ''BTC'' [(''BTC'', btc_stamped)] = []" by simp
  from get_expired_evicts [of "btc_store 5" "[(''BTC'', btc_stamped)]" "''BTC''" btc_stamped
      "JStr ''2024-01-01T00:00:00''" sample_parse "\<lparr>micros = jan1, utcoffset = None\<rparr>"
      "jan1 + 360000000" empty_disk "''BTC''" "btc_store 10" empty_disk btc_stamped]
    a b c d f g btc_stamped_ts parse_jan1 can_persist_btc
  show ?thesis by simp
qed

subsection \<open>Construction\<close>

text \<open>
  Claim C4 says that opening a store on a missing or corrupted backing file never raises,
  for every backing path. \<open>_ensure_data_dir\<close> runs before the \<open>try\<close> of \<open>_load_cache\<close>,
  and for a path without a directory part it calls \<open>os.makedirs('')\<close>: construction on
  \<open>cache.json\<close> raises \<open>FileNotFoundError\<close> on every file system, whether the file is
  missing, corrupted or well-formed.
\<close>

theorem init_bare_filename_raises:
  "dirname ''cache.json'' = [] \<and> init fs ''cache.json'' ttl = Inl FileNotFoundError"
  by (simp add: init_def load_cache_def ensure_data_dir_def makedirs_def dirname_def)

subsection \<open>A TTL of zero\<close>

text \<open>
  Claim C5, as stated: with a TTL of zero, \<open>get(k)\<close> right after \<open>save(k, v)\<close>, with no
  clock advance, always returns \<open>None\<close>. The test of \<open>_is_expired\<close> is the strict
  \<open>now > expiry\<close>: a value stamped with the very instant of the read is still returned.
\<close>

theorem zero_ttl_counterexample:
  "fst (save_then_get sample_parse jan1 ''BTC'' btc_stamped (empty_store 0) empty_disk)
     = Inr (Some btc_stamped)
   \<and> fst (save_then_get sample_parse jan1 ''BTC'' btc_stamped (empty_store 0) empty_disk)
       \<noteq> Inr None"
  by (simp add: save_then_get_def save_def get_def save_cache_def ensure_data_dir_def
      makedirs_def dirname_def is_expired_def fromisoformat_def sample_parse_def
      add_minutes_def now_gt_def jan1_def MAXMICROS_def btc_stamped_def
      empty_store_def empty_disk_def)

text \<open>
  Claim C5, amended: with a TTL of zero, when \<open>save(k, v)\<close> returns and \<open>v\<close> is a
  dictionary whose \<open>timestamp\<close>, if it parses at all, is strictly earlier than the clock
  reading at the read, the \<open>get(k)\<close> that follows returns \<open>None\<close>.
\<close>

theorem zero_ttl_expired_after_tick:
  assumes "ttl_minutes self = 0"
      and "fst (save symbol data self fs) = Inr ()"
      and "py_get data ''timestamp'' (JStr []) = Inr ts"
      and "\<forall>t. fromisoformat parse ts = Inr t \<longrightarrow> micros t < now"
  shows "fst (save_then_get parse now symbol data self fs) = Inr None"
proof -
  obtain self' fs' where s: "save symbol data self fs = (Inr (), self', fs')"
    using assms(2) by (cases "save symbol data self fs") auto
  from save_Inr [OF s] obtain kvs where
    d: "cache_data self' = JObj (AList.update symbol data kvs)"
    and t: "ttl_minutes self' = ttl_minutes self"
    and p: "can_persist self fs"
    and f: "fs' = fs\<lparr>file_at := (file_at fs)
              (cache_file self := Holds (JObj (AList.update symbol data kvs)))\<rparr>"
    and c: "cache_file self' = cache_file self"
    by auto
  have m: "map_of (AList.update symbol data kvs) symbol = Some data"
    by (simp add: update_conv')
  have x: "is_expired parse now (ttl_minutes self') ts"
  proof (cases "fromisoformat parse ts")
    case (Inl e)
    then show ?thesis by (rule is_expired_unparsable)
  next
    case (Inr t0)
    with assms(4) have "micros t0 + ttl_minutes self' * 60000000 < now"
      using t assms(1) by simp
    with Inr show ?thesis by (rule is_expired_overdue)
  qed
  have p': "can_persist self' fs'"
    using p f c by (simp add: can_persist_def)
  have "fst (get parse now symbol self' fs') = Inr None"
    using get_evicts [OF d m assms(3) x p'] by simp
  with s show ?thesis by (simp add: save_then_get_def)
qed

theorem zero_ttl_expired_after_tick_witness:
  "ttl_minutes (empty_store 0) = 0
   \<and> fst (save ''BTC'' btc_stamped (empty_store 0) empty_disk) = Inr ()
   \<and> py_get btc_stamped ''timestamp'' (JStr []) = Inr (JStr ''2024-01-01T00:00:00'')
   \<and> fromisoformat sample_parse (JStr ''2024-01-01T00:00:00'')
        = Inr \<lparr>micros = jan1, utcoffset = None\<rparr>
   \<and> micros \<lparr>micros = jan1, utcoffset = None\<rparr> < jan1 + 1
   \<and> fst (save_then_get sample_parse (jan1 + 1) ''BTC'' btc_stamped (empty_store 0) empty_disk)
       = Inr None"
proof -
  have a: "ttl_minutes (empty_store 0) = 0" by (simp add: empty_store_def)
  have b: "fst (save ''BTC'' btc_stamped (empty_store 0) empty_disk) = Inr ()"
    by (simp add: save_def save_cache_def ensure_data_dir_def makedirs_def dirname_def
        empty_store_def empty_disk_def)
  have c: "\<forall>t. fromisoformat sample_parse (JStr ''2024-01-01T00:00:00'') = Inr t
             \<longrightarrow> micros t < jan1 + 1"
    by (simp add: parse_jan1)
  from zero_ttl_expired_after_tick [OF a b btc_stamped_ts c] a b btc_stamped_ts parse_jan1
  show ?thesis by simp
qed

subsection \<open>Entries without a usable timestamp\<close>

text \<open>
  Claim C6: when the key is present and its entry (a dictionary) has no \<open>timestamp\<close>
  field, or has one that \<open>fromisoformat\<close> rejects, \<open>get\<close> treats the entry as expired:
  it removes the entry, writes the remaining store to the backing file (which can be
  written) and returns \<open>None\<close>.
\<close>

theorem get_bad_timestamp_evicts:
  assumes "cache_data self = JObj kvs"
      and "map_of kvs symbol = Some (JObj flds)"
      and "map_of flds ''timestamp'' = None
           \<or> (\<exists>x e. map_of flds ''timestamp'' = Some x \<and> fromisoformat parse x = Inl e)"
      and "can_persist self fs"
  shows "get parse now symbol self fs =
           (Inr None, self\<lparr>cache_data := JObj (AList.delete symbol kvs)\<rparr>,
            fs\<lparr>file_at := (file_at fs)
                   (cache_file self := Holds (JObj (AList.delete symbol kvs)))\<rparr>)"
proof -
  define ts where "ts = (case map_of flds ''timestamp'' of None \<Rightarrow> JStr [] | Some x \<Rightarrow> x)"
  have g: "py_get (JObj flds) ''timestamp'' (JStr []) = Inr ts"
    by (simp add: ts_def)
  have "\<exists>e. fromisoformat parse ts = Inl e"
    using assms(3) by (auto simp: ts_def fromisoformat_def)
  then have x: "is_expired parse now (ttl_minutes self) ts"
    by (auto intro: is_expired_unparsable)
  show ?thesis by (rule get_evicts [OF assms(1) assms(2) g x assms(4)])
qed

theorem get_bad_timestamp_evicts_witness:
  "get sample_parse jan1 ''BTC'' stale_store empty_disk =
     (Inr None,
      stale_store\<lparr>cache_data := JObj [(''ETH'', JObj [(''timestamp'', JStr ''yesterday'')])]\<rparr>,
      empty_disk\<lparr>file_at := (file_at empty_disk)
        (''data/cache.json'' := Holds (JObj [(''ETH'', JObj [(''timestamp'', JStr ''yesterday'')])]))\<rparr>)
   \<and> get sample_parse jan1 ''ETH'' stale_store empty_disk =
     (Inr None, stale_store\<lparr>cache_data := JObj [(''BTC'', btc_plain)]\<rparr>,
      empty_disk\<lparr>file_at := (file_at empty_disk)
        (''data/cache.json'' := Holds (JObj [(''BTC'', btc_plain)]))\<rparr>)"
proof -
  have a: "cache_data stale_store =
             JObj [(''BTC'', btc_plain), (''ETH'', JObj [(''timestamp'', JStr ''yesterday'')])]"
    by (simp add: stale_store_def)
  have b1: "map_of [(''BTC'', btc_plain), (''ETH'', JObj [(''timestamp'', JStr ''yesterday'')])]
              ''BTC'' = Some (JObj [(''price'', JInt 45000)])"
    by (simp add: btc_plain_def)
  have c1: "map_of [(''price'', JInt 45000)] ''timestamp'' = None
            \<or> (\<exists>x e. map_of [(''price'', JInt 45000)] ''timestamp'' = Some x
                  \<and> fromisoformat sample_parse x = Inl e)"
    by simp
  have b2: "map_of [(''BTC'', btc_plain), (''ETH'', JObj [(''timestamp'', JStr ''yesterday'')])]
              ''ETH'' = Some (JObj [(''timestamp'', JStr ''yesterday'')])"
    by simp
  have c2: "map_of [(''timestamp'', JStr ''yesterday'')] ''timestamp'' = None
            \<or> (\<exists>x e. map_of [(''timestamp'', JStr ''yesterday'')] ''timestamp'' = Some x
                  \<and> fromisoformat sample_parse x = Inl e)"
    by (simp add: fromisoformat_def sample_parse_def)
  have f: "cache_file stale_store = ''data/cache.json''" by (simp add: stale_store_def)
  from get_bad_timestamp_evicts [OF a b1 c1 can_persist_stale, of jan1]
       get_bad_timestamp_evicts [OF a b2 c2 can_persist_stale, of jan1] f
  show ?thesis by simp
qed

subsection \<open>Clearing\<close>

text \<open>
  Claim C7, as stated: for every key \<open>k\<close>, \<open>clear(k)\<close> removes only the entry for \<open>k\<close>.
  The empty string is a key like any other for \<open>save\<close> and \<open>get\<close>, but \<open>clear('')\<close>
  takes the branch of \<open>clear()\<close>: on a store holding the keys \<open>''\<close> and \<open>BTC\<close> it
  removes \<open>BTC\<close> as well.
\<close>

theorem clear_empty_key_counterexample:
  "cache_data (fst (snd (clear (Some []) mixed_store empty_disk))) = JObj []
   \<and> cache_data (fst (snd (clear (Some []) mixed_store empty_disk)))
       \<noteq> JObj [(''BTC'', btc_stamped)]
   \<and> py_getitem (cache_data mixed_store) ''BTC'' = Inr btc_stamped
   \<and> py_getitem (cache_data (fst (snd (clear (Some []) mixed_store empty_disk)))) ''BTC''
       = Inl KeyError"
  by (simp add: clear_def truthy_def save_cache_def ensure_data_dir_def makedirs_def
      dirname_def mixed_store_def empty_disk_def)

text \<open>
  Claim C7, amended: for every key \<open>k\<close> other than the empty string, on a store whose
  data is a dictionary, \<open>clear(k)\<close> removes the entry for \<open>k\<close> and nothing else (the
  dictionary is unchanged when \<open>k\<close> is absent); \<open>clear()\<close> with no key empties the store;
  and in each case, the backing file being writable, the store is written to it
  afterwards, also when nothing changed.
\<close>

theorem clear_removes_and_persists:
  "(symbol \<noteq> [] \<and> cache_data self = JObj kvs \<and> can_persist self fs
    \<longrightarrow> clear (Some symbol) self fs =
          (Inr (), self\<lparr>cache_data := JObj (AList.delete symbol kvs)\<rparr>,
           fs\<lparr>file_at := (file_at fs)
                  (cache_file self := Holds (JObj (AList.delete symbol kvs)))\<rparr>)
        \<and> map_of (AList.delete symbol kvs) = (map_of kvs)(symbol := None)
        \<and> (symbol \<notin> fst ` set kvs \<longrightarrow> AList.delete symbol kvs = kvs))
   \<and> (can_persist store disk
      \<longrightarrow> clear None store disk =
            (Inr (), store\<lparr>cache_data := JObj []\<rparr>,
             disk\<lparr>file_at := (file_at disk)(cache_file store := Holds (JObj []))\<rparr>))"
  by (simp add: clear_key_ok clear_all_ok truthy_def delete_conv')

theorem clear_removes_and_persists_witness:
  "clear (Some ''BTC'') mixed_store empty_disk =
     (Inr (), mixed_store\<lparr>cache_data := JObj [([], btc_plain)]\<rparr>,
      empty_disk\<lparr>file_at := (file_at empty_disk)
        (''data/cache.json'' := Holds (JObj [([], btc_plain)]))\<rparr>)
   \<and> clear (Some ''ETH'') mixed_store empty_disk =
     (Inr (), mixed_store,
      empty_disk\<lparr>file_at := (file_at empty_disk)
        (''data/cache.json'' := Holds (cache_data mixed_store))\<rparr>)
   \<and> clear None mixed_store empty_disk =
     (Inr (), mixed_store\<lparr>cache_data := JObj []\<rparr>,
      empty_disk\<lparr>file_at := (file_at empty_disk)(''data/cache.json'' := Holds (JObj []))\<rparr>)"
proof -
  have a: "cache_data mixed_store = JObj [([], btc_plain), (''BTC'', btc_stamped)]"
    by (simp add: mixed_store_def)
  have f: "cache_file mixed_store = ''data/cache.json''" by (simp add: mixed_store_def)
  have n1: "''BTC'' \<noteq> []" and n2: "''ETH'' \<noteq> []" by simp_all
  have e: "mixed_store\<lparr>cache_data := JObj [([], btc_plain), (''BTC'', btc_stamped)]\<rparr>
             = mixed_store"
    by (simp add: mixed_store_def)
  from clear_removes_and_persists [of "''BTC''" mixed_store
         "[([], btc_plain), (''BTC'', btc_stamped)]" empty_disk mixed_store empty_disk]
       clear_removes_and_persists [of "''ETH''" mixed_store
         "[([], btc_plain), (''BTC'', btc_stamped)]" empty_disk mixed_store empty_disk]
       a f n1 n2 e can_persist_mixed
  show ?thesis by simp
qed

text \<open>
  Claim C10: \<open>clear('')\<close> does what \<open>clear()\<close> does, because the argument is tested
  for truthiness: every entry is removed, not only the one under the empty key.
\<close>

theorem clear_empty_string_clears_all:
  "clear (Some []) self fs = clear None self fs
   \<and> cache_data (fst (snd (clear (Some []) self fs))) = JObj []"
  by (simp add: clear_def truthy_def Let_def split: prod.splits)

subsection \<open>The backing file follows the store\<close>

text \<open>
  Claim C8: whenever \<open>save\<close> or \<open>clear\<close> returns normally, and whenever \<open>get\<close> returns
  \<open>None\<close> for a key that was present (the read that evicts), the backing file holds
  exactly the store as it is in memory afterwards.
\<close>

theorem file_reflects_memory:
  "(save symbol data self fs = (Inr u, self1, fs1)
      \<longrightarrow> file_at fs1 (cache_file self1) = Holds (cache_data self1))
   \<and> (clear target self fs = (Inr u, self2, fs2)
      \<longrightarrow> file_at fs2 (cache_file self2) = Holds (cache_data self2))
   \<and> (get parse now key self fs = (Inr None, self3, fs3)
        \<and> py_contains (cache_data self) key = Inr True
      \<longrightarrow> file_at fs3 (cache_file self3) = Holds (cache_data self3))"
proof (intro conjI impI)
  assume "save symbol data self fs = (Inr u, self1, fs1)"
  from save_Inr [OF this] show "file_at fs1 (cache_file self1) = Holds (cache_data self1)"
    by auto
next
  assume "clear target self fs = (Inr u, self2, fs2)"
  from clear_Inr [OF this] show "file_at fs2 (cache_file self2) = Holds (cache_data self2)"
    by blast
next
  assume "get parse now key self fs = (Inr None, self3, fs3)
        \<and> py_contains (cache_data self) key = Inr True"
  then show "file_at fs3 (cache_file self3) = Holds (cache_data self3)"
    using get_evicting_Inr by blast
qed

theorem file_reflects_memory_witness:
  "save ''ETH'' btc_plain (btc_store 5) empty_disk =
     (Inr (), (btc_store 5)\<lparr>cache_data := JObj [(''BTC'', btc_stamped), (''ETH'', btc_plain)]\<rparr>,
      empty_disk\<lparr>file_at := (file_at empty_disk)
        (''data/cache.json'' := Holds (JObj [(''BTC'', btc_stamped), (''ETH'', btc_plain)]))\<rparr>)
   \<and> clear (Some ''BTC'') (btc_store 5) empty_disk =
     (Inr (), (btc_store 5)\<lparr>cache_data := JObj []\<rparr>,
      empty_disk\<lparr>file_at := (file_at empty_disk)(''data/cache.json'' := Holds (JObj []))\<rparr>)
   \<and> get sample_parse (jan1 + 360000000) ''BTC'' (btc_store 5) empty_disk =
     (Inr None, (btc_store 5)\<lparr>cache_data := JObj []\<rparr>,
      empty_disk\<lparr>file_at := (file_at empty_disk)(''data/cache.json'' := Holds (JObj []))\<rparr>)
   \<and> py_contains (cache_data (btc_store 5)) ''BTC'' = Inr True
   \<and> file_at (empty_disk\<lparr>file_at := (file_at empty_disk)
        (''data/cache.json'' := Holds (JObj [(''BTC'', btc_stamped), (''ETH'', btc_plain)]))\<rparr>)
        ''data/cache.json'' = Holds (JObj [(''BTC'', btc_stamped), (''ETH'', btc_plain)])
   \<and> file_at (empty_disk\<lparr>file_at := (file_at empty_disk)
        (''data/cache.json'' := Holds (JObj []))\<rparr>) ''data/cache.json'' = Holds (JObj [])"
proof -
  have a: "cache_data (btc_store 5) = JObj [(''BTC'', btc_stamped)]"
    by (simp add: btc_store_def)
  have f: "cache_file (btc_store 5) = ''data/cache.json''" by (simp add: btc_store_def)
  have s: "save ''ETH'' btc_plain (btc_store 5) empty_disk =
     (Inr (), (btc_store 5)\<lparr>cache_data := JObj [(''BTC'', btc_stamped), (''ETH'', btc_plain)]\<rparr>,
      empty_disk\<lparr>file_at := (file_at empty_disk)
        (''data/cache.json'' := Holds (JObj [(''BTC'', btc_stamped), (''ETH'', btc_plain)]))\<rparr>)"
    using save_ok [OF a can_persist_btc, of "''ETH''" btc_plain] f by simp
  have c: "clear (Some ''BTC'') (btc_store 5) empty_disk =
     (Inr (), (btc_store 5)\<lparr>cache_data := JObj []\<rparr>,
      empty_disk\<lparr>file_at := (file_at empty_disk)(''data/cache.json'' := Holds (JObj []))\<rparr>)"
    using clear_key_ok [OF _ a can_persist_btc, of "''BTC''"] f by simp
  have x: "is_expired sample_parse (jan1 + 360000000) (ttl_minutes (btc_store 5))
             (JStr ''2024-01-01T00:00:00'')"
    by (rule is_expired_overdue [OF parse_jan1]) (simp add: btc_store_def)
  have m: "map_of [(''BTC'', btc_stamped)] ''BTC'' = Some btc_stamped" by simp
  have g: "get sample_parse (jan1 + 360000000) ''BTC'' (btc_store 5) empty_disk =
     (Inr None, (btc_store 5)\<lparr>cache_data := JObj []\<rparr>,
      empty_disk\<lparr>file_at := (file_at empty_disk)(''data/cache.json'' := Holds (JObj []))\<rparr>)"
    using get_evicts [OF a m btc_stamped_ts x can_persist_btc] f by simp
  have k: "py_contains (cache_data (btc_store 5)) ''BTC'' = Inr True"
    by (simp add: a)
  from file_reflects_memory [of "''ETH''" btc_plain "btc_store 5" empty_disk "()"
      "(btc_store 5)\<lparr>cache_data := JObj [(''BTC'', btc_stamped), (''ETH'', btc_plain)]\<rparr>"
      "empty_disk\<lparr>file_at := (file_at empty_disk)
        (''data/cache.json'' := Holds (JObj [(''BTC'', btc_stamped), (''ETH'', btc_plain)]))\<rparr>"
      "Some ''BTC''" "(btc_store 5)\<lparr>cache_data := JObj []\<rparr>"
      "empty_disk\<lparr>file_at := (file_at empty_disk)(''data/cache.json'' := Holds (JObj []))\<rparr>"
      sample_parse "jan1 + 360000000" "''BTC''" "(btc_store 5)\<lparr>cache_data := JObj []\<rparr>"
      "empty_disk\<lparr>file_at := (file_at empty_disk)(''data/cache.json'' := Holds (JObj []))\<rparr>"]
    s c g k f
  show ?thesis by simp
qed

subsection \<open>A cache hit changes nothing\<close>

text \<open>
  Claim C9: when the key is present and its entry is not expired, \<open>get\<close> returns the
  entry as stored, and the store in memory and the whole file system are as they were.
\<close>

theorem get_hit_no_side_effect:
  assumes "cache_data self = JObj kvs"
      and "map_of kvs symbol = Some entry"
      and "py_get entry ''timestamp'' (JStr []) = Inr ts"
      and "\<not> is_expired parse now (ttl_minutes self) ts"
  shows "get parse now symbol self fs = (Inr (Some entry), self, fs)"
  using assms by (rule get_hit)

theorem get_hit_no_side_effect_witness:
  "cache_data (btc_store 10) = JObj [(''BTC'', btc_stamped)]
   \<and> map_of [(''BTC'', btc_stamped)] ''BTC'' = Some btc_stamped
   \<and> py_get btc_stamped ''timestamp'' (JStr []) = Inr (JStr ''2024-01-01T00:00:00'')
   \<and> \<not> is_expired sample_parse (jan1 + 360000000) (ttl_minutes (btc_store 10))
         (JStr ''2024-01-01T00:00:00'')
   \<and> get sample_parse (jan1 + 360000000) ''BTC'' (btc_store 10) empty_disk
       = (Inr (Some btc_stamped), btc_store 10, empty_disk)"
proof -
  have a: "cache_data (btc_store 10) = JObj [(''BTC'', btc_stamped)]"
    by (simp add: btc_store_def)
  have b: "map_of [(''BTC'', btc_stamped)] ''BTC'' = Some btc_stamped" by simp
  have c: "\<not> is_expired sample_parse (jan1 + 360000000) (ttl_minutes (btc_store 10))
             (JStr ''2024-01-01T00:00:00'')"
    by (simp add: is_expired_def fromisoformat_def sample_parse_def add_minutes_def
        now_gt_def jan1_def MAXMICROS_def btc_store_def)
  from get_hit_no_side_effect [OF a b btc_stamped_ts c, of empty_disk] a b c btc_stamped_ts
  show ?thesis by simp
qed

end
